theory Spec2Isabelle
  imports Main "HOL-Library.Sublist"
begin

section \<open>paswitch: the PulseAudio command-line sink switcher (main.c)\<close>

text \<open>
  The program is one C file of callbacks driven by the PulseAudio main loop. The embedding
  passes one explicit \<open>world\<close> through every function: the program's output and the
  library calls it made (one chronological \<open>trace\<close>), the quit request held by the main
  loop, and the part of the library's state the program can observe. Each C function of
  main.c is one definition of the same name; the library functions it calls are separate,
  small definitions, each marked as modelled from the specification, since libpulse is
  not part of the sources.
\<close>

subsection \<open>Data\<close>

text \<open>\<open>pa_context_state_t\<close>, in the order of the specification's Connection states.\<close>

datatype pa_context_state =
    PA_CONTEXT_UNCONNECTED
  | PA_CONTEXT_CONNECTING
  | PA_CONTEXT_AUTHORIZING
  | PA_CONTEXT_SETTING_NAME
  | PA_CONTEXT_READY
  | PA_CONTEXT_FAILED
  | PA_CONTEXT_TERMINATED

datatype pa_update_mode = PA_UPDATE_MERGE | PA_UPDATE_REPLACE | PA_UPDATE_SET

text \<open>
  The channel layout and the volume are structs of the library that main.c only copies by
  value; their content plays no role, so a list of numbers stands for each.
\<close>

type_synonym pa_channel_map = "nat list"
type_synonym pa_cvolume = "nat list"

text \<open>
  \<open>pa_ext_stream_restore_info\<close>, with the five fields main.c assigns. \<open>device\<close> is a
  \<open>const char *\<close> that the service may leave NULL, hence the option.
\<close>

record pa_ext_stream_restore_info =
  name :: string
  channel_map :: pa_channel_map
  volume :: pa_cvolume
  mute :: int
  device :: "string option"

datatype pa_prop = PA_PROP_APPLICATION_NAME | PA_PROP_APPLICATION_ID

text \<open>
  What the program does that is visible from outside: text written with \<open>printf\<close>, and
  the calls into the library with the arguments that matter.
\<close>

datatype action =
    Printf string
  | Quit int
  | Pa_mainloop_new
  | Pa_mainloop_get_api
  | Pa_proplist_new
  | Pa_proplist_sets pa_prop string
  | Pa_context_new_with_proplist
  | Pa_proplist_free
  | Pa_context_connect
  | Pa_context_set_state_callback string
  | Pa_mainloop_run
  | Pa_context_drain
  | Pa_context_disconnect
  | Pa_operation_unref
  | Pa_context_set_default_sink string
  | Pa_ext_stream_restore_read string
  | Pa_ext_stream_restore_write pa_update_mode "pa_ext_stream_restore_info list" int
  | Pa_context_unref
  | Pa_signal_done
  | Pa_mainloop_free

text \<open>
  What the main loop can hand to the program: a connection state change, the completion
  of a set-default or write operation (\<open>int success\<close>), one enumeration delivery (record
  pointer, NULL as \<open>None\<close>, and \<open>int eol\<close>), and the completion of the drain.
  \<open>Ev_error\<close> is the service recording an error on the connection: it changes what
  \<open>pa_strerror(pa_context_errno(c))\<close> returns and runs no callback.
\<close>

datatype event =
    Ev_state pa_context_state
  | Ev_success int
  | Ev_stream_restore "pa_ext_stream_restore_info option" int
  | Ev_drain_complete
  | Ev_error string

text \<open>
  The answer of the library to a call that can fail: the object or operation is created,
  or it is refused with the error text the connection then reports.
\<close>

datatype reply = Granted | Refused string

record world =
  trace :: "action list"
  script :: "reply list"
  ctx_state :: pa_context_state
  ctx_error :: string
  state_cb :: "string option"
  read_cb :: "string option"
  quit_req :: "int option"
  delivered :: "event list"
  mainloop_live :: bool
  context_live :: bool

text \<open>
  \<open>script\<close> holds the answers the library will give to the fallible calls still to come,
  in call order (once it is used up, calls are granted); \<open>ctx_error\<close> is the text of
  \<open>pa_strerror(pa_context_errno(context))\<close>; \<open>state_cb\<close> and \<open>read_cb\<close> are the
  \<open>userdata\<close> pointers registered for the state callback and for the enumeration;
  \<open>quit_req\<close> is the exit status passed to \<open>quit\<close>, if it was called; \<open>delivered\<close> logs
  the events the main loop has dispatched, in order; \<open>mainloop_live\<close> and
  \<open>context_live\<close> say whether the objects behind the globals \<open>mainloop\<close> and
  \<open>context\<close> of main.c are alive (the field cannot be called \<open>context\<close>, a keyword
  of Isabelle).
\<close>

datatype fault = Null_dereference

definition nl :: string where
  "nl = [CHR 0x0A]"

subsection \<open>Output and library calls\<close>

definition emit :: "action \<Rightarrow> world \<Rightarrow> world" where
  "emit a w = w\<lparr>trace := trace w @ [a]\<rparr>"

definition printf :: "string \<Rightarrow> world \<Rightarrow> world" where
  "printf s w = emit (Printf s) w"

text \<open>
  Modelled from the spec: \<open>mainloop_api->quit\<close> belongs to libpulse. Section 4.3:
  \<open>quit(code)\<close> schedules loop exit with the given exit status.
\<close>

definition quit :: "int \<Rightarrow> world \<Rightarrow> world" where
  "quit retval w = (emit (Quit retval) w)\<lparr>quit_req := Some retval\<rparr>"

text \<open>
  Modelled from the spec: the outcome of a libpulse call that can fail. Section 5: every
  request-issuing call returns a handle, or null on immediate failure. The call is logged,
  the next answer of the script is taken, and a refusal leaves its error text on the
  connection. The result is \<open>True\<close> for a handle and \<open>False\<close> for NULL.
\<close>

definition lib_call :: "action \<Rightarrow> world \<Rightarrow> bool \<times> world" where
  "lib_call a w =
     (let w1 = emit a w in
      case script w1 of
        [] \<Rightarrow> (True, w1)
      | Granted # rs \<Rightarrow> (True, w1\<lparr>script := rs\<rparr>)
      | Refused e # rs \<Rightarrow> (False, w1\<lparr>script := rs, ctx_error := e\<rparr>))"

text \<open>
  Modelled from the spec: \<open>pa_mainloop_new\<close> of libpulse creates the top-level loop
  object of section 5, or returns NULL.
\<close>

definition pa_mainloop_new :: "world \<Rightarrow> bool \<times> world" where
  "pa_mainloop_new w =
     (let (ok, w1) = lib_call Pa_mainloop_new w in (ok, w1\<lparr>mainloop_live := ok\<rparr>))"

text \<open>
  Modelled from the spec: \<open>pa_mainloop_get_api\<close> and the three property-list functions of
  libpulse. The spec gives them no effect of their own; the calls are logged.
\<close>

definition pa_mainloop_get_api :: "world \<Rightarrow> world" where
  "pa_mainloop_get_api w = emit Pa_mainloop_get_api w"

definition pa_proplist_new :: "world \<Rightarrow> world" where
  "pa_proplist_new w = emit Pa_proplist_new w"

definition pa_proplist_sets :: "pa_prop \<Rightarrow> string \<Rightarrow> world \<Rightarrow> world" where
  "pa_proplist_sets k v w = emit (Pa_proplist_sets k v) w"

definition pa_proplist_free :: "world \<Rightarrow> world" where
  "pa_proplist_free w = emit Pa_proplist_free w"

text \<open>
  Modelled from the spec: \<open>pa_context_new_with_proplist\<close> of libpulse creates the
  Connection of section 3, in state Unconnected, or returns NULL.
\<close>

definition pa_context_new_with_proplist :: "world \<Rightarrow> bool \<times> world" where
  "pa_context_new_with_proplist w =
     (let (ok, w1) = lib_call Pa_context_new_with_proplist w
      in (ok, w1\<lparr>context_live := ok, ctx_state := PA_CONTEXT_UNCONNECTED\<rparr>))"

text \<open>Modelled from the spec: \<open>pa_context_get_state\<close> of libpulse reads the state.\<close>

definition pa_context_get_state :: "world \<Rightarrow> pa_context_state" where
  "pa_context_get_state w = ctx_state w"

text \<open>
  Modelled from the spec: \<open>pa_context_set_state_callback\<close> of libpulse. Section 4.1: it
  registers the callback invoked on every state transition, here with its \<open>userdata\<close>.
\<close>

definition pa_context_set_state_callback :: "string \<Rightarrow> world \<Rightarrow> world" where
  "pa_context_set_state_callback userdata w =
     (emit (Pa_context_set_state_callback userdata) w)\<lparr>state_cb := Some userdata\<rparr>"

text \<open>
  Modelled from the spec: \<open>pa_operation_unref\<close> of libpulse. Section 3: a handle is
  released right after issuance, completion comes by callback.
\<close>

definition pa_operation_unref :: "world \<Rightarrow> world" where
  "pa_operation_unref w = emit Pa_operation_unref w"

text \<open>
  Modelled from the spec: \<open>pa_context_set_default_sink\<close> of libpulse, the
  \<open>setDefaultOutputDevice(name)\<close> of section 6.
\<close>

definition pa_context_set_default_sink :: "string \<Rightarrow> world \<Rightarrow> bool \<times> world" where
  "pa_context_set_default_sink nm w = lib_call (Pa_context_set_default_sink nm) w"

text \<open>
  Modelled from the spec: \<open>pa_ext_stream_restore_read\<close> of libpulse, the
  \<open>enumerateStreamRestoreRecords()\<close> of section 6. When the operation is created, its
  callback is registered with the \<open>userdata\<close> given.
\<close>

definition pa_ext_stream_restore_read :: "string \<Rightarrow> world \<Rightarrow> bool \<times> world" where
  "pa_ext_stream_restore_read userdata w =
     (let (ok, w1) = lib_call (Pa_ext_stream_restore_read userdata) w
      in (ok, if ok then w1\<lparr>read_cb := Some userdata\<rparr> else w1))"

text \<open>
  Modelled from the spec: \<open>pa_ext_stream_restore_write\<close> of libpulse, the
  \<open>writeStreamRestoreRecord(record, mode)\<close> of section 6. The array of records and its
  length are one list.
\<close>

definition pa_ext_stream_restore_write ::
  "pa_update_mode \<Rightarrow> pa_ext_stream_restore_info list \<Rightarrow> int \<Rightarrow> world \<Rightarrow> bool \<times> world" where
  "pa_ext_stream_restore_write mode data apply_immediately w =
     lib_call (Pa_ext_stream_restore_write mode data apply_immediately) w"

text \<open>Modelled from the spec: \<open>pa_context_drain\<close> of libpulse, the \<open>drain()\<close> of section 6.\<close>

definition pa_context_drain :: "world \<Rightarrow> bool \<times> world" where
  "pa_context_drain w = lib_call Pa_context_drain w"

text \<open>
  Modelled from the spec: \<open>pa_context_unref\<close>, \<open>pa_signal_done\<close> and
  \<open>pa_mainloop_free\<close> of libpulse. Section 5: the Connection and the loop object are
  released; after the call the object is gone.
\<close>

definition pa_context_unref :: "world \<Rightarrow> world" where
  "pa_context_unref w = (emit Pa_context_unref w)\<lparr>context_live := False\<rparr>"

definition pa_signal_done :: "world \<Rightarrow> world" where
  "pa_signal_done w = emit Pa_signal_done w"

definition pa_mainloop_free :: "world \<Rightarrow> world" where
  "pa_mainloop_free w = (emit Pa_mainloop_free w)\<lparr>mainloop_live := False\<rparr>"

subsection \<open>The callbacks of main.c that the state callback needs\<close>

text \<open>
  \<open>success_cb(c, success, userdata)\<close>: \<open>c\<close> is the one connection, which the world
  stands for, and \<open>userdata\<close> is not used.
\<close>

definition success_cb :: "int \<Rightarrow> world \<Rightarrow> world" where
  "success_cb success w =
     (if success = 0 then quit 1 (printf (ctx_error w @ nl) w) else w)"

definition set_default_sink :: "string \<Rightarrow> world \<Rightarrow> int \<times> world" where
  "set_default_sink nm w =
     (let (h, w1) = pa_context_set_default_sink nm w in
      if \<not> h then
        (- 1, printf (''pa_context_set_default_sink() failed: '' @ ctx_error w1 @ nl) w1)
      else
        let w2 = pa_operation_unref w1;
            (h2, w3) = pa_ext_stream_restore_read nm w2 in
        if \<not> h2 then
          (- 1, printf (''pa_ext_stream_restore_read() failed: '' @ ctx_error w3 @ nl) w3)
        else (0, pa_operation_unref w3))"

definition context_state_callback :: "string \<Rightarrow> world \<Rightarrow> world" where
  "context_state_callback userdata w =
     (case pa_context_get_state w of
        PA_CONTEXT_CONNECTING \<Rightarrow> w
      | PA_CONTEXT_AUTHORIZING \<Rightarrow> w
      | PA_CONTEXT_SETTING_NAME \<Rightarrow> w
      | PA_CONTEXT_READY \<Rightarrow>
          (let (r, w1) = set_default_sink userdata w in
           if r \<noteq> 0 then quit 1 (printf (''set_default_sink() failed'' @ nl) w1) else w1)
      | PA_CONTEXT_TERMINATED \<Rightarrow> quit 0 w
      | _ \<Rightarrow> quit 1 (printf (''connection failure: '' @ ctx_error w @ nl) w))"

subsection \<open>Connection state changes\<close>

text \<open>
  Modelled from the spec: the state change of the connection manager of libpulse.
  Section 4.1: the registered callback is invoked on every state transition.
\<close>

definition pa_context_set_state :: "pa_context_state \<Rightarrow> world \<Rightarrow> world" where
  "pa_context_set_state s w =
     (let w1 = w\<lparr>ctx_state := s\<rparr> in
      case state_cb w1 of
        None \<Rightarrow> w1
      | Some userdata \<Rightarrow> context_state_callback userdata w1)"

text \<open>
  Modelled from the spec: the states of section 4.1 in which the connection is being set
  up or is usable, that is all but Unconnected, Failed and Terminated.
\<close>

definition PA_CONTEXT_IS_GOOD :: "pa_context_state \<Rightarrow> bool" where
  "PA_CONTEXT_IS_GOOD s =
     (s = PA_CONTEXT_CONNECTING \<or> s = PA_CONTEXT_AUTHORIZING \<or>
      s = PA_CONTEXT_SETTING_NAME \<or> s = PA_CONTEXT_READY)"

text \<open>
  Modelled from the spec: \<open>pa_context_disconnect\<close> of libpulse. Section 6:
  \<open>disconnect()\<close> is a synchronous request to tear down the connection that yields a
  Terminated state notification. The notification is delivered inside the call. A
  connection that is not in a good state (never connected, failed, or terminated already)
  stays as it is.
\<close>

definition pa_context_disconnect :: "world \<Rightarrow> world" where
  "pa_context_disconnect w =
     (let w1 = emit Pa_context_disconnect w in
      if PA_CONTEXT_IS_GOOD (ctx_state w1) then pa_context_set_state PA_CONTEXT_TERMINATED w1
      else w1)"

text \<open>
  Modelled from the spec: \<open>pa_context_connect\<close> of libpulse. Section 4.1: Unconnected to
  Connecting on the connect call; a refused connect leaves the connection Failed. The
  result is the C return value, negative on failure.
\<close>

definition pa_context_connect :: "world \<Rightarrow> int \<times> world" where
  "pa_context_connect w =
     (let (ok, w1) = lib_call Pa_context_connect w in
      if ok then (0, pa_context_set_state PA_CONTEXT_CONNECTING w1)
      else (- 1, pa_context_set_state PA_CONTEXT_FAILED w1))"

subsection \<open>The remaining functions of main.c\<close>

definition setup_context :: "world \<Rightarrow> int \<times> world" where
  "setup_context w =
     (let (ml, w1) = pa_mainloop_new w in
      if \<not> ml then (- 1, printf (''pa_mainloop_new() failed.'' @ nl) w1)
      else
        let w2 = pa_mainloop_get_api w1;
            w3 = pa_proplist_new w2;
            w4 = pa_proplist_sets PA_PROP_APPLICATION_NAME ''Commandline sink switcher'' w3;
            w5 = pa_proplist_sets PA_PROP_APPLICATION_ID ''org.tablix.paswitch'' w4;
            (c, w6) = pa_context_new_with_proplist w5 in
        if \<not> c then (- 1, printf (''pa_context_new() failed.'' @ nl) w6)
        else
          let w7 = pa_proplist_free w6;
              (r, w8) = pa_context_connect w7 in
          if r < 0 then
            (- 1, printf (''pa_context_connect() failed: '' @ ctx_error w8 @ nl) w8)
          else (0, w8))"

definition context_drain_complete :: "world \<Rightarrow> world" where
  "context_drain_complete w = pa_context_disconnect w"

definition drain :: "world \<Rightarrow> world" where
  "drain w =
     (let (h, w1) = pa_context_drain w in
      if \<not> h then pa_context_disconnect w1 else pa_operation_unref w1)"

text \<open>
  \<open>stream_restore_cb(c, info, eol, userdata)\<close>. Reading a field through a NULL \<open>info\<close>
  is the fault \<open>Null_dereference\<close>.
\<close>

definition stream_restore_cb ::
  "pa_ext_stream_restore_info option \<Rightarrow> int \<Rightarrow> string \<Rightarrow> world \<Rightarrow> fault + world" where
  "stream_restore_cb info eol userdata w =
     (if eol \<noteq> 0 then Inr (drain w)
      else
        case info of
          None \<Rightarrow> Inl Null_dereference
        | Some i \<Rightarrow>
            (let new_info = \<lparr>name = name i, channel_map = channel_map i, volume = volume i,
                             mute = mute i, device = Some userdata\<rparr>;
                 (h, w1) = pa_ext_stream_restore_write PA_UPDATE_REPLACE [new_info] 1 w in
             if \<not> h then
               Inr (printf (''pa_ext_stream_restore_write() failed: '' @ ctx_error w1 @ nl) w1)
             else Inr (pa_operation_unref w1)))"

subsection \<open>The main loop\<close>

text \<open>
  Modelled from the spec: the event loop driver of libpulse, section 4.3. It delivers
  connection state changes and operation completions one at a time, in the order the
  transport reports them, to the callback registered for each, and returns once \<open>quit\<close>
  has been called, with the status passed to it. What the transport reports is the
  schedule, a list: each entry is an event to deliver or a failure of the loop itself.
  The loop never times out: when the schedule is used up and nobody has called \<open>quit\<close>,
  it blocks for ever.
\<close>

datatype step = Deliver event | Poll_error

datatype loop_result = Loop_quit int | Loop_error | Loop_blocked

definition log_event :: "event \<Rightarrow> world \<Rightarrow> world" where
  "log_event ev w = w\<lparr>delivered := delivered w @ [ev]\<rparr>"

text \<open>
  Modelled from the spec: the delivery of one event by libpulse. A completion goes to
  \<open>success_cb\<close>, which main.c registers for the set-default and the write operations, a
  drain completion to \<open>context_drain_complete\<close>, a state change to the state callback,
  an enumeration delivery to \<open>stream_restore_cb\<close> with the \<open>userdata\<close> of the read
  request; without a read request there is no enumeration and the delivery is dropped.
\<close>

fun dispatch :: "event \<Rightarrow> world \<Rightarrow> fault + world" where
  "dispatch (Ev_error e) w = Inr (w\<lparr>ctx_error := e\<rparr>)"
| "dispatch (Ev_state s) w = Inr (pa_context_set_state s (log_event (Ev_state s) w))"
| "dispatch (Ev_success success) w = Inr (success_cb success (log_event (Ev_success success) w))"
| "dispatch (Ev_stream_restore info eol) w =
     (case read_cb w of
        None \<Rightarrow> Inr w
      | Some userdata \<Rightarrow>
          stream_restore_cb info eol userdata (log_event (Ev_stream_restore info eol) w))"
| "dispatch Ev_drain_complete w = Inr (context_drain_complete (log_event Ev_drain_complete w))"

text \<open>
  Modelled from the spec: the iterations of the loop of libpulse. Before each delivery the
  loop looks at the quit request and returns when there is one.
\<close>

fun run_loop :: "step list \<Rightarrow> world \<Rightarrow> fault + (loop_result \<times> world)" where
  "run_loop [] w =
     (case quit_req w of
        Some retval \<Rightarrow> Inr (Loop_quit retval, w)
      | None \<Rightarrow> Inr (Loop_blocked, w))"
| "run_loop (st # sched) w =
     (case quit_req w of
        Some retval \<Rightarrow> Inr (Loop_quit retval, w)
      | None \<Rightarrow>
          (case st of
             Poll_error \<Rightarrow> Inr (Loop_error, w)
           | Deliver ev \<Rightarrow>
               (case dispatch ev w of
                  Inl f \<Rightarrow> Inl f
                | Inr w1 \<Rightarrow> run_loop sched w1)))"

text \<open>
  Modelled from the spec: \<open>pa_mainloop_run(mainloop, &ret)\<close> of libpulse. \<open>Loop_quit ret\<close>
  is a non-negative return value with \<open>ret\<close> stored, \<open>Loop_error\<close> a negative one,
  \<open>Loop_blocked\<close> a call that never returns.
\<close>

definition pa_mainloop_run :: "step list \<Rightarrow> world \<Rightarrow> fault + (loop_result \<times> world)" where
  "pa_mainloop_run sched w = run_loop sched (emit Pa_mainloop_run w)"

subsection \<open>main\<close>

text \<open>The state of the process when \<open>main\<close> starts; the script is the library's.\<close>

definition boot :: "reply list \<Rightarrow> world" where
  "boot rs =
     \<lparr>trace = [], script = rs, ctx_state = PA_CONTEXT_UNCONNECTED, ctx_error = [],
      state_cb = None, read_cb = None, quit_req = None, delivered = [],
      mainloop_live = False, context_live = False\<rparr>"

definition usage :: "string \<Rightarrow> string" where
  "usage argv0 =
     ''PulseAudio commandline sink switcher'' @ nl @
     ''Copyright (C) 2012 by Tomaz Solc <tomaz.solc@tablix.org>'' @ nl @ nl @
     ''USAGE: '' @ argv0 @ '' [ sink ]'' @ nl"

text \<open>
  \<open>main(argc, argv)\<close> with \<open>argc = length argv\<close>. The result is the exit status, or
  \<open>None\<close> when the process never exits; \<open>argv[0]\<close> of an empty \<open>argv\<close> is NULL.
\<close>

definition main :: "string list \<Rightarrow> reply list \<Rightarrow> step list \<Rightarrow> fault + (int option \<times> world)" where
  "main argv rs sched =
     (let w = boot rs; argc = int (length argv) in
      if argc \<noteq> 2 then
        (case argv of
           [] \<Rightarrow> Inl Null_dereference
         | argv0 # _ \<Rightarrow> Inr (Some 0, printf (usage argv0) w))
      else
        let (r, w1) = setup_context w in
        if r \<noteq> 0 then Inr (Some 1, printf (''can't get pulseaudio context.'' @ nl) w1)
        else
          let nm = argv ! 1;
              w2 = pa_context_set_state_callback nm w1 in
          case pa_mainloop_run sched w2 of
            Inl f \<Rightarrow> Inl f
          | Inr (Loop_blocked, w3) \<Rightarrow> Inr (None, w3)
          | Inr (Loop_error, w3) \<Rightarrow> Inr (Some 1, printf (''pa_mainloop_run() failed.'' @ nl) w3)
          | Inr (Loop_quit ret, w3) \<Rightarrow>
              Inr (Some ret,
                   pa_mainloop_free (pa_signal_done (pa_context_unref (pa_context_disconnect w3)))))"

subsection \<open>Observations on a run\<close>

text \<open>
  The write requests in a trace, each with its mode, its records and its
  apply-immediately flag, and the records the enumeration callback was given.
\<close>

fun write_requests ::
  "action list \<Rightarrow> (pa_update_mode \<times> pa_ext_stream_restore_info list \<times> int) list" where
  "write_requests [] = []"
| "write_requests (Pa_ext_stream_restore_write m d a # as) = (m, d, a) # write_requests as"
| "write_requests (_ # as) = write_requests as"

fun records_delivered :: "event list \<Rightarrow> pa_ext_stream_restore_info list" where
  "records_delivered [] = []"
| "records_delivered (Ev_stream_restore (Some i) eol # evs) =
     (if eol = 0 then i # records_delivered evs else records_delivered evs)"
| "records_delivered (_ # evs) = records_delivered evs"

text \<open>A completion that reports success.\<close>

fun ack :: "event \<Rightarrow> bool" where
  "ack (Ev_success success) = (success \<noteq> 0)"
| "ack _ = False"

text \<open>The actions a callback can take; the others belong to \<open>setup_context\<close> and \<open>main\<close>.\<close>

fun loop_action :: "action \<Rightarrow> bool" where
  "loop_action (Printf s) = True"
| "loop_action (Quit c) = True"
| "loop_action Pa_context_drain = True"
| "loop_action Pa_context_disconnect = True"
| "loop_action Pa_operation_unref = True"
| "loop_action (Pa_context_set_default_sink nm) = True"
| "loop_action (Pa_ext_stream_restore_read ud) = True"
| "loop_action (Pa_ext_stream_restore_write m d a) = True"
| "loop_action _ = False"

text \<open>The library will grant the next call that can fail.\<close>

definition granted_next :: "world \<Rightarrow> bool" where
  "granted_next w = (case script w of Refused e # rs \<Rightarrow> False | _ \<Rightarrow> True)"

text \<open>The calls of a \<open>setup_context\<close> that succeeds.\<close>

definition setup_trace :: "action list" where
  "setup_trace =
     [Pa_mainloop_new, Pa_mainloop_get_api, Pa_proplist_new,
      Pa_proplist_sets PA_PROP_APPLICATION_NAME ''Commandline sink switcher'',
      Pa_proplist_sets PA_PROP_APPLICATION_ID ''org.tablix.paswitch'',
      Pa_context_new_with_proplist, Pa_proplist_free, Pa_context_connect]"

text \<open>
  Two stretches of \<open>main\<close>: from the end of \<open>setup_context\<close> to the first turn of the
  loop, and the four calls after the loop has returned.
\<close>

definition start :: "string \<Rightarrow> world \<Rightarrow> world" where
  "start nm w1 = emit Pa_mainloop_run (pa_context_set_state_callback nm w1)"

definition cleanup :: "world \<Rightarrow> world" where
  "cleanup w = pa_mainloop_free (pa_signal_done (pa_context_unref (pa_context_disconnect w)))"

definition retarget :: "string \<Rightarrow> pa_ext_stream_restore_info \<Rightarrow> pa_ext_stream_restore_info" where
  "retarget nm i =
     \<lparr>name = name i, channel_map = channel_map i, volume = volume i, mute = mute i,
      device = Some nm\<rparr>"

text \<open>
  The invariant of the loop: the write requests issued so far are the records delivered so
  far, retargeted, in the same order, and both callbacks carry the device name.
\<close>

definition wr_inv :: "string \<Rightarrow> world \<Rightarrow> bool" where
  "wr_inv nm w \<longleftrightarrow>
     write_requests (trace w) =
       map (\<lambda>i. (PA_UPDATE_REPLACE, [retarget nm i], 1)) (records_delivered (delivered w))
     \<and> state_cb w = Some nm \<and> (read_cb w = None \<or> read_cb w = Some nm)"

text \<open>
  Both objects released exactly once, neither alive any more, with connect, run,
  disconnect, unref and free in this order in the trace.
\<close>

definition released_in_order :: "world \<Rightarrow> bool" where
  "released_in_order w \<longleftrightarrow>
     subseq [Pa_context_connect, Pa_mainloop_run, Pa_context_disconnect, Pa_context_unref,
             Pa_mainloop_free] (trace w)
     \<and> count_list (trace w) Pa_context_unref = 1 \<and> count_list (trace w) Pa_mainloop_free = 1
     \<and> \<not> context_live w \<and> \<not> mainloop_live w"

text \<open>
  A world to try things on: \<open>paswitch hdmi\<close> once the connection is Ready and both
  requests are out, with \<open>rs\<close> the answers the library still holds.
\<close>

definition ready_world :: "reply list \<Rightarrow> world" where
  "ready_world rs =
     \<lparr>trace = setup_trace @
        [Pa_context_set_state_callback ''hdmi'', Pa_mainloop_run,
         Pa_context_set_default_sink ''hdmi'', Pa_operation_unref,
         Pa_ext_stream_restore_read ''hdmi'', Pa_operation_unref],
      script = rs, ctx_state = PA_CONTEXT_READY, ctx_error = [],
      state_cb = Some ''hdmi'', read_cb = Some ''hdmi'', quit_req = None,
      delivered = [Ev_state PA_CONTEXT_READY],
      mainloop_live = True, context_live = True\<rparr>"

text \<open>
  A session to try things on: the service holds three records, two of them for the same
  stream name, and everything succeeds. \<open>three_records\<close> is what the loop delivers,
  \<open>three_records_done\<close> the world in which \<open>paswitch hdmi\<close> then exits.
\<close>

definition three_records :: "step list" where
  "three_records =
     [Deliver (Ev_state PA_CONTEXT_READY),
      Deliver (Ev_stream_restore
        (Some \<lparr>name = ''mpv'', channel_map = [1, 2], volume = [65536, 65536], mute = 0,
               device = Some ''usb''\<rparr>) 0),
      Deliver (Ev_success 1),
      Deliver (Ev_stream_restore
        (Some \<lparr>name = ''vlc'', channel_map = [0], volume = [30000], mute = 1,
               device = None\<rparr>) 0),
      Deliver (Ev_stream_restore
        (Some \<lparr>name = ''mpv'', channel_map = [1, 2], volume = [65536, 65536], mute = 0,
               device = Some ''usb''\<rparr>) 0),
      Deliver (Ev_stream_restore None 1),
      Deliver Ev_drain_complete]"

definition three_records_done :: world where
  "three_records_done =
     \<lparr>trace = setup_trace @
        [Pa_context_set_state_callback ''hdmi'', Pa_mainloop_run,
         Pa_context_set_default_sink ''hdmi'', Pa_operation_unref,
         Pa_ext_stream_restore_read ''hdmi'', Pa_operation_unref,
         Pa_ext_stream_restore_write PA_UPDATE_REPLACE
           [\<lparr>name = ''mpv'', channel_map = [1, 2], volume = [65536, 65536], mute = 0,
             device = Some ''hdmi''\<rparr>] 1,
         Pa_operation_unref,
         Pa_ext_stream_restore_write PA_UPDATE_REPLACE
           [\<lparr>name = ''vlc'', channel_map = [0], volume = [30000], mute = 1,
             device = Some ''hdmi''\<rparr>] 1,
         Pa_operation_unref,
         Pa_ext_stream_restore_write PA_UPDATE_REPLACE
           [\<lparr>name = ''mpv'', channel_map = [1, 2], volume = [65536, 65536], mute = 0,
             device = Some ''hdmi''\<rparr>] 1,
         Pa_operation_unref,
         Pa_context_drain, Pa_operation_unref, Pa_context_disconnect, Quit 0,
         Pa_context_disconnect, Pa_context_unref, Pa_signal_done, Pa_mainloop_free],
      script = [], ctx_state = PA_CONTEXT_TERMINATED, ctx_error = [],
      state_cb = Some ''hdmi'', read_cb = Some ''hdmi'', quit_req = Some 0,
      delivered =
        [Ev_state PA_CONTEXT_READY,
         Ev_stream_restore
           (Some \<lparr>name = ''mpv'', channel_map = [1, 2], volume = [65536, 65536], mute = 0,
                  device = Some ''usb''\<rparr>) 0,
         Ev_success 1,
         Ev_stream_restore
           (Some \<lparr>name = ''vlc'', channel_map = [0], volume = [30000], mute = 1,
                  device = None\<rparr>) 0,
         Ev_stream_restore
           (Some \<lparr>name = ''mpv'', channel_map = [1, 2], volume = [65536, 65536], mute = 0,
                  device = Some ''usb''\<rparr>) 0,
         Ev_stream_restore None 1, Ev_drain_complete],
      mainloop_live = False, context_live = False\<rparr>"

section \<open>Auxiliary facts\<close>

lemmas lib_defs =
  emit_def printf_def quit_def lib_call_def pa_mainloop_new_def pa_mainloop_get_api_def
  pa_proplist_new_def pa_proplist_sets_def pa_proplist_free_def
  pa_context_new_with_proplist_def pa_context_get_state_def pa_context_set_state_callback_def
  pa_operation_unref_def pa_context_set_default_sink_def pa_ext_stream_restore_read_def
  pa_ext_stream_restore_write_def pa_context_drain_def pa_context_unref_def
  pa_signal_done_def pa_mainloop_free_def pa_context_set_state_def PA_CONTEXT_IS_GOOD_def
  pa_context_disconnect_def pa_context_connect_def log_event_def

lemmas prog_defs =
  success_cb_def set_default_sink_def context_state_callback_def setup_context_def
  context_drain_complete_def drain_def stream_restore_cb_def

lemmas run_defs = main_def pa_mainloop_run_def boot_def Let_def lib_defs prog_defs

lemmas splits =
  list.splits reply.splits option.splits pa_context_state.splits prod.splits if_splits

subsection \<open>The observations distribute over append\<close>

lemma write_requests_append:
  "write_requests (xs @ ys) = write_requests xs @ write_requests ys"
  by (induction xs rule: write_requests.induct) auto

lemma records_delivered_append:
  "records_delivered (xs @ ys) = records_delivered xs @ records_delivered ys"
  by (induction xs rule: records_delivered.induct) auto

subsection \<open>One dispatch\<close>

lemma dispatch_wr_inv: "wr_inv nm w \<Longrightarrow> dispatch ev w = Inr w' \<Longrightarrow> wr_inv nm w'"
  by (cases ev)
     (auto simp: wr_inv_def retarget_def lib_defs prog_defs Let_def write_requests_append
                 records_delivered_append
           split: splits)

lemma dispatch_frame:
  "dispatch ev w = Inr w' \<Longrightarrow>
   \<exists>as. trace w' = trace w @ as \<and> list_all loop_action as \<and>
        mainloop_live w' = mainloop_live w \<and> context_live w' = context_live w"
  by (cases ev) (auto simp: lib_defs prog_defs Let_def split: splits)

subsection \<open>The loop\<close>

lemma run_loop_wr_inv: "wr_inv nm w \<Longrightarrow> run_loop sched w = Inr (r, w') \<Longrightarrow> wr_inv nm w'"
proof (induction sched arbitrary: w)
  case Nil
  then show ?case by (auto split: option.splits)
next
  case (Cons st sched)
  then show ?case
    by (auto split: option.splits step.splits sum.splits dest: dispatch_wr_inv)
qed

lemma run_loop_blocked: "run_loop sched w = Inr (Loop_blocked, w') \<Longrightarrow> quit_req w' = None"
  by (induction sched arbitrary: w) (auto split: option.splits step.splits sum.splits)

lemma run_loop_quit: "run_loop sched w = Inr (Loop_quit c, w') \<Longrightarrow> quit_req w' = Some c"
  by (induction sched arbitrary: w) (auto split: option.splits step.splits sum.splits)

lemma run_loop_error: "run_loop sched w = Inr (Loop_error, w') \<Longrightarrow> quit_req w' = None"
  by (induction sched arbitrary: w) (auto split: option.splits step.splits sum.splits)

lemma run_loop_quit_now: "quit_req w = Some c \<Longrightarrow> run_loop sched w = Inr (Loop_quit c, w)"
  by (cases sched) auto

lemma run_loop_append:
  "run_loop xs w = Inr (Loop_blocked, w1) \<Longrightarrow> run_loop (xs @ ys) w = run_loop ys w1"
proof (induction xs arbitrary: w)
  case Nil
  then show ?case by (cases ys) (auto split: option.splits)
next
  case (Cons st xs)
  then show ?case by (auto split: option.splits step.splits sum.splits)
qed

lemma run_loop_acks:
  "list_all ack acks \<Longrightarrow> quit_req w = None \<Longrightarrow>
   run_loop (map Deliver acks @ sched) w = run_loop sched (w\<lparr>delivered := delivered w @ acks\<rparr>)"
proof (induction acks arbitrary: w)
  case Nil
  then show ?case by simp
next
  case (Cons a acks)
  then obtain s where a: "a = Ev_success s" "s \<noteq> 0" by (cases a) auto
  with Cons show ?case by (simp add: success_cb_def log_event_def)
qed

lemma run_loop_frame:
  "run_loop sched w = Inr (r, w') \<Longrightarrow>
   \<exists>as. trace w' = trace w @ as \<and> list_all loop_action as \<and>
        mainloop_live w' = mainloop_live w \<and> context_live w' = context_live w"
proof (induction sched arbitrary: w)
  case Nil
  then show ?case by (auto split: option.splits)
next
  case (Cons st sched)
  show ?case
  proof (cases "quit_req w")
    case (Some c)
    with Cons.prems show ?thesis by auto
  next
    case None
    show ?thesis
    proof (cases st)
      case Poll_error
      with None Cons.prems show ?thesis by auto
    next
      case (Deliver ev)
      with None Cons.prems obtain w1 where
        d: "dispatch ev w = Inr w1" and r: "run_loop sched w1 = Inr (r, w')"
        by (auto split: sum.splits)
      from dispatch_frame [OF d] obtain as1 where
        a1: "trace w1 = trace w @ as1" "list_all loop_action as1"
            "mainloop_live w1 = mainloop_live w" "context_live w1 = context_live w" by blast
      from Cons.IH [OF r] obtain as2 where
        a2: "trace w' = trace w1 @ as2" "list_all loop_action as2"
            "mainloop_live w' = mainloop_live w1" "context_live w' = context_live w1" by blast
      from a1 a2 have "trace w' = trace w @ (as1 @ as2)" "list_all loop_action (as1 @ as2)"
        by simp_all
      with a1 a2 show ?thesis by metis
    qed
  qed
qed

lemma loop_actions_no_release:
  "list_all loop_action as \<Longrightarrow> Pa_context_unref \<notin> set as \<and> Pa_mainloop_free \<notin> set as"
  by (auto simp: list_all_iff)

subsection \<open>setup_context and main\<close>

lemma setup_context_ok:
  "setup_context (boot rs) = (r, w1) \<Longrightarrow> r = 0 \<Longrightarrow>
   trace w1 = setup_trace \<and> delivered w1 = [] \<and> state_cb w1 = None \<and> read_cb w1 = None \<and>
   quit_req w1 = None \<and> mainloop_live w1 \<and> context_live w1 \<and>
   ctx_state w1 = PA_CONTEXT_CONNECTING"
  by (auto simp: setup_trace_def boot_def lib_defs prog_defs Let_def split: splits)

lemma setup_context_failed:
  "setup_context (boot rs) = (r, w1) \<Longrightarrow> r \<noteq> 0 \<Longrightarrow>
   quit_req w1 = None \<and> delivered w1 = [] \<and> write_requests (trace w1) = [] \<and>
   Pa_context_unref \<notin> set (trace w1) \<and> Pa_mainloop_free \<notin> set (trace w1)"
  by (auto simp: boot_def lib_defs prog_defs Let_def split: splits)

lemma main_two:
  "main [prog, nm] rs sched =
     (case setup_context (boot rs) of
        (r, w1) \<Rightarrow>
          if r \<noteq> 0 then Inr (Some 1, printf (''can't get pulseaudio context.'' @ nl) w1)
          else
            (case run_loop sched (start nm w1) of
               Inl f \<Rightarrow> Inl f
             | Inr (Loop_blocked, w3) \<Rightarrow> Inr (None, w3)
             | Inr (Loop_error, w3) \<Rightarrow>
                 Inr (Some 1, printf (''pa_mainloop_run() failed.'' @ nl) w3)
             | Inr (Loop_quit ret, w3) \<Rightarrow> Inr (Some ret, cleanup w3)))"
  unfolding main_def pa_mainloop_run_def start_def cleanup_def
  by (simp add: Let_def split: prod.splits)

lemma cleanup_frame:
  "\<exists>q. trace (cleanup w) =
          trace w @ [Pa_context_disconnect] @ q @
          [Pa_context_unref, Pa_signal_done, Pa_mainloop_free]
       \<and> (q = [] \<or> q = [Quit 0])
       \<and> delivered (cleanup w) = delivered w \<and> \<not> mainloop_live (cleanup w)
       \<and> \<not> context_live (cleanup w) \<and> (quit_req w \<noteq> None \<longrightarrow> quit_req (cleanup w) \<noteq> None)"
  by (auto simp: cleanup_def lib_defs prog_defs Let_def split: splits)

lemma start_wr_inv:
  "setup_context (boot rs) = (0, w1) \<Longrightarrow> wr_inv nm (start nm w1)"
  by (drule setup_context_ok) (auto simp: wr_inv_def start_def setup_trace_def lib_defs)

lemma main_writes:
  assumes "main argv rs sched = Inr (out, w')"
  shows "write_requests (trace w') =
           map (\<lambda>i. (PA_UPDATE_REPLACE, [retarget (argv ! 1) i], 1))
               (records_delivered (delivered w'))"
proof (cases "length argv = 2")
  case False
  with assms show ?thesis
    by (auto simp: main_def boot_def printf_def emit_def split: list.splits)
next
  case True
  then obtain prog nm where argv: "argv = [prog, nm]"
    by (cases argv; cases "tl argv") auto
  obtain r w1 where s: "setup_context (boot rs) = (r, w1)" by force
  show ?thesis
  proof (cases "r = 0")
    case False
    with assms s argv setup_context_failed [OF s] show ?thesis
      by (auto simp: main_two printf_def emit_def write_requests_append)
  next
    case True
    with s have inv: "wr_inv nm (start nm w1)" by (simp add: start_wr_inv)
    from assms argv s True obtain lr w3 where
      run: "run_loop sched (start nm w1) = Inr (lr, w3)"
      and fin: "(lr = Loop_blocked \<and> w' = w3) \<or>
           (lr = Loop_error \<and> w' = printf (''pa_mainloop_run() failed.'' @ nl) w3) \<or>
           (\<exists>ret. lr = Loop_quit ret \<and> w' = cleanup w3)"
      by (auto simp: main_two split: sum.splits loop_result.splits)
    from run_loop_wr_inv [OF inv run] have w3: "wr_inv nm w3" .
    from cleanup_frame [of w3] obtain q where
      q: "trace (cleanup w3) =
            trace w3 @ [Pa_context_disconnect] @ q @
            [Pa_context_unref, Pa_signal_done, Pa_mainloop_free]"
         "q = [] \<or> q = [Quit 0]" "delivered (cleanup w3) = delivered w3" by blast
    from fin w3 q show ?thesis
      by (auto simp: argv wr_inv_def printf_def emit_def write_requests_append)
  qed
qed

lemma main_blocked:
  assumes "main [prog, nm] rs (map Deliver pre) = Inr (None, w)"
  shows "\<exists>w1. setup_context (boot rs) = (0, w1) \<and>
              run_loop (map Deliver pre) (start nm w1) = Inr (Loop_blocked, w)"
  using assms
  by (auto simp: main_two split: prod.splits if_splits sum.splits loop_result.splits)

lemma main_extend:
  assumes "main [prog, nm] rs (map Deliver pre) = Inr (None, w)"
  shows "main [prog, nm] rs (map Deliver pre @ sched) =
           (case run_loop sched w of
              Inl f \<Rightarrow> Inl f
            | Inr (Loop_blocked, w3) \<Rightarrow> Inr (None, w3)
            | Inr (Loop_error, w3) \<Rightarrow>
                Inr (Some 1, printf (''pa_mainloop_run() failed.'' @ nl) w3)
            | Inr (Loop_quit ret, w3) \<Rightarrow> Inr (Some ret, cleanup w3))"
    and "quit_req w = None" and "wr_inv nm w"
proof -
  from main_blocked [OF assms] obtain w1 where
    s: "setup_context (boot rs) = (0, w1)" and
    r: "run_loop (map Deliver pre) (start nm w1) = Inr (Loop_blocked, w)" by blast
  from run_loop_append [OF r] s
  show "main [prog, nm] rs (map Deliver pre @ sched) =
           (case run_loop sched w of
              Inl f \<Rightarrow> Inl f
            | Inr (Loop_blocked, w3) \<Rightarrow> Inr (None, w3)
            | Inr (Loop_error, w3) \<Rightarrow>
                Inr (Some 1, printf (''pa_mainloop_run() failed.'' @ nl) w3)
            | Inr (Loop_quit ret, w3) \<Rightarrow> Inr (Some ret, cleanup w3))"
    by (simp add: main_two)
  from r show "quit_req w = None" by (rule run_loop_blocked)
  from s r show "wr_inv nm w" by (blast intro: run_loop_wr_inv start_wr_inv)
qed

lemma subseq_exit_path:
  "subseq [Pa_context_connect, Pa_mainloop_run, Pa_context_disconnect, Pa_context_unref,
           Pa_mainloop_free]
     (setup_trace @ [Pa_context_set_state_callback nm, Pa_mainloop_run] @ as @
      [Pa_context_disconnect] @ q @ [Pa_context_unref, Pa_signal_done, Pa_mainloop_free])"
proof -
  have 1: "subseq [Pa_context_connect] setup_trace"
    by (simp add: setup_trace_def subseq_singleton_left)
  have 2: "subseq [Pa_mainloop_run] [Pa_context_set_state_callback nm, Pa_mainloop_run]"
    by (simp add: subseq_singleton_left)
  have 3: "subseq [Pa_context_disconnect] (as @ [Pa_context_disconnect] @ q)"
    by (simp add: subseq_singleton_left)
  have 4: "subseq [Pa_context_unref, Pa_mainloop_free]
             [Pa_context_unref, Pa_signal_done, Pa_mainloop_free]"
    by simp
  from list_emb_append_mono [OF 1 list_emb_append_mono [OF 2 list_emb_append_mono [OF 3 4]]]
  show ?thesis by simp
qed

lemma ready_world_reached:
  "main [''paswitch'', ''hdmi''] (Granted # Granted # Granted # Granted # Granted # rs)
     (map Deliver [Ev_state PA_CONTEXT_READY]) = Inr (None, ready_world rs)"
  by (simp add: run_defs ready_world_def setup_trace_def)

section \<open>The claims\<close>

subsection \<open>C1: a write operation that cannot be created\<close>

text \<open>
  Claim C1: if creating a stream-restore write operation fails inside the enumeration
  callback, the program prints the service's error string and the event loop terminates
  with exit status 1, just as for a callback-reported write failure.

  The code prints the error and returns from the callback without calling \<open>quit\<close>.
  First run below: the service delivers one record and refuses the write operation; the
  message is printed, the run goes on to the drain and ends with exit status 0. Second
  run: the write operation is created and its completion callback reports the failure;
  \<open>success_cb\<close> prints and calls \<open>quit(1)\<close>, and the exit status is 1.
\<close>

theorem write_refusal_run_exits_zero:
  "main [''paswitch'', ''hdmi'']
     [Granted, Granted, Granted, Granted, Granted, Refused ''Invalid argument'']
     [Deliver (Ev_state PA_CONTEXT_READY), Deliver (Ev_success 1),
      Deliver (Ev_stream_restore
        (Some \<lparr>name = ''mpv'', channel_map = [1, 2], volume = [65536, 65536], mute = 0,
               device = Some ''usb''\<rparr>) 0),
      Deliver (Ev_stream_restore None 1), Deliver Ev_drain_complete]
   = Inr (Some 0,
      \<lparr>trace = setup_trace @
         [Pa_context_set_state_callback ''hdmi'', Pa_mainloop_run,
          Pa_context_set_default_sink ''hdmi'', Pa_operation_unref,
          Pa_ext_stream_restore_read ''hdmi'', Pa_operation_unref,
          Pa_ext_stream_restore_write PA_UPDATE_REPLACE
            [\<lparr>name = ''mpv'', channel_map = [1, 2], volume = [65536, 65536], mute = 0,
              device = Some ''hdmi''\<rparr>] 1,
          Printf (''pa_ext_stream_restore_write() failed: Invalid argument'' @ nl),
          Pa_context_drain, Pa_operation_unref, Pa_context_disconnect, Quit 0,
          Pa_context_disconnect, Pa_context_unref, Pa_signal_done, Pa_mainloop_free],
       script = [], ctx_state = PA_CONTEXT_TERMINATED, ctx_error = ''Invalid argument'',
       state_cb = Some ''hdmi'', read_cb = Some ''hdmi'', quit_req = Some 0,
       delivered =
         [Ev_state PA_CONTEXT_READY, Ev_success 1,
          Ev_stream_restore
            (Some \<lparr>name = ''mpv'', channel_map = [1, 2], volume = [65536, 65536], mute = 0,
                   device = Some ''usb''\<rparr>) 0,
          Ev_stream_restore None 1, Ev_drain_complete],
       mainloop_live = False, context_live = False\<rparr>)
   \<and>
   main [''paswitch'', ''hdmi''] []
     [Deliver (Ev_state PA_CONTEXT_READY), Deliver (Ev_success 1),
      Deliver (Ev_stream_restore
        (Some \<lparr>name = ''mpv'', channel_map = [1, 2], volume = [65536, 65536], mute = 0,
               device = Some ''usb''\<rparr>) 0),
      Deliver (Ev_error ''Invalid argument''), Deliver (Ev_success 0),
      Deliver (Ev_stream_restore None 1), Deliver Ev_drain_complete]
   = Inr (Some 1,
      \<lparr>trace = setup_trace @
         [Pa_context_set_state_callback ''hdmi'', Pa_mainloop_run,
          Pa_context_set_default_sink ''hdmi'', Pa_operation_unref,
          Pa_ext_stream_restore_read ''hdmi'', Pa_operation_unref,
          Pa_ext_stream_restore_write PA_UPDATE_REPLACE
            [\<lparr>name = ''mpv'', channel_map = [1, 2], volume = [65536, 65536], mute = 0,
              device = Some ''hdmi''\<rparr>] 1,
          Pa_operation_unref,
          Printf (''Invalid argument'' @ nl), Quit 1,
          Pa_context_disconnect, Quit 0, Pa_context_unref, Pa_signal_done, Pa_mainloop_free],
       script = [], ctx_state = PA_CONTEXT_TERMINATED, ctx_error = ''Invalid argument'',
       state_cb = Some ''hdmi'', read_cb = Some ''hdmi'', quit_req = Some 0,
       delivered =
         [Ev_state PA_CONTEXT_READY, Ev_success 1,
          Ev_stream_restore
            (Some \<lparr>name = ''mpv'', channel_map = [1, 2], volume = [65536, 65536], mute = 0,
                   device = Some ''usb''\<rparr>) 0,
          Ev_success 0],
       mainloop_live = False, context_live = False\<rparr>)"
  by (simp add: run_defs setup_trace_def)

subsection \<open>C2: one write per delivered record\<close>

text \<open>
  Claim C2: for every run against a reachable service delivering N stream-restore records,
  the program issues exactly N write requests, one per delivered record in delivery order,
  with no reordering or deduplication, and each written record has its target-device field
  equal to the supplied device name while the stream-identifier, channel-layout, volume
  and mute fields equal those of the corresponding read record.

  Stated for every run of \<open>main\<close> with one argument \<open>nm\<close> that does not fault, whatever
  the library answers and whatever the loop delivers, also when the run never exits: the
  payloads of the write requests, in the order of the trace, are the records the
  enumeration callback received, in the order of delivery, each as a single record with
  \<open>device\<close> replaced by \<open>nm\<close>. A write request is a call of
  \<open>pa_ext_stream_restore_write\<close>, whether or not the library creates the operation.
\<close>

theorem writes_mirror_delivered_records:
  assumes "main [prog, nm] rs sched = Inr (out, w')"
  shows "map (\<lambda>(mode, data, apply_immediately). data) (write_requests (trace w')) =
           map (\<lambda>i. [\<lparr>name = name i, channel_map = channel_map i, volume = volume i,
                        mute = mute i, device = Some nm\<rparr>])
               (records_delivered (delivered w'))
       \<and> length (write_requests (trace w')) = length (records_delivered (delivered w'))"
  using main_writes [OF assms] by (simp add: retarget_def comp_def)

text \<open>Three records, two of them for the same stream name: three writes, in that order.\<close>

theorem writes_mirror_delivered_records_witness:
  "main [''paswitch'', ''hdmi''] [] three_records = Inr (Some 0, three_records_done)
   \<and> map (\<lambda>(mode, data, apply_immediately). data) (write_requests (trace three_records_done))
     = [[\<lparr>name = ''mpv'', channel_map = [1, 2], volume = [65536, 65536], mute = 0,
           device = Some ''hdmi''\<rparr>],
        [\<lparr>name = ''vlc'', channel_map = [0], volume = [30000], mute = 1,
           device = Some ''hdmi''\<rparr>],
        [\<lparr>name = ''mpv'', channel_map = [1, 2], volume = [65536, 65536], mute = 0,
           device = Some ''hdmi''\<rparr>]]
   \<and> length (write_requests (trace three_records_done)) = 3
   \<and> length (records_delivered (delivered three_records_done)) = 3"
proof -
  have run: "main [''paswitch'', ''hdmi''] [] three_records = Inr (Some 0, three_records_done)"
    by (simp add: run_defs setup_trace_def three_records_def three_records_done_def)
  from writes_mirror_delivered_records [OF run] run show ?thesis
    by (simp add: three_records_done_def)
qed

subsection \<open>C3: the two requests issued at Ready\<close>

text \<open>
  Claim C3: when the connection reaches Ready, the sequencer issues the set-default-device
  request and then the enumerate-stream-restore-records request back-to-back, without
  waiting for the set-default-device completion callback, passing the target device name
  as the enumeration's context.

  The Ready notification is one dispatch. With \<open>nm\<close> registered as the state callback's
  \<open>userdata\<close>, as \<open>main\<close> does with \<open>argv[1]\<close>, and the set-default operation created,
  that one dispatch extends the trace by the set-default request for \<open>nm\<close>, the release
  of its handle and the enumeration request with context \<open>nm\<close>; the only event
  delivered meanwhile is the Ready notification itself, so no completion callback ran in
  between. When the enumeration is created too, \<open>nm\<close> is the context its callback
  will get.
\<close>

theorem ready_issues_both_requests:
  assumes "state_cb w = Some nm" and "granted_next w"
  shows "\<exists>w' rest. dispatch (Ev_state PA_CONTEXT_READY) w = Inr w'
           \<and> trace w' = trace w @ [Pa_context_set_default_sink nm, Pa_operation_unref,
                                   Pa_ext_stream_restore_read nm] @ rest
           \<and> delivered w' = delivered w @ [Ev_state PA_CONTEXT_READY]
           \<and> (granted_next (w\<lparr>script := tl (script w)\<rparr>) \<longrightarrow> read_cb w' = Some nm)"
  using assms
  by (auto simp: granted_next_def lib_defs set_default_sink_def context_state_callback_def
                 Let_def
           split: list.splits reply.splits)

theorem ready_issues_both_requests_witness:
  "state_cb (start ''hdmi'' (snd (setup_context (boot [])))) = Some ''hdmi''
   \<and> granted_next (start ''hdmi'' (snd (setup_context (boot []))))
   \<and> granted_next ((start ''hdmi'' (snd (setup_context (boot []))))
                     \<lparr>script := tl (script (start ''hdmi'' (snd (setup_context (boot [])))))\<rparr>)
   \<and> dispatch (Ev_state PA_CONTEXT_READY) (start ''hdmi'' (snd (setup_context (boot []))))
       = Inr (ready_world [])
   \<and> (\<exists>w' rest.
         dispatch (Ev_state PA_CONTEXT_READY) (start ''hdmi'' (snd (setup_context (boot []))))
           = Inr w'
         \<and> trace w' = trace (start ''hdmi'' (snd (setup_context (boot [])))) @
             [Pa_context_set_default_sink ''hdmi'', Pa_operation_unref,
              Pa_ext_stream_restore_read ''hdmi''] @ rest
         \<and> delivered w' = delivered (start ''hdmi'' (snd (setup_context (boot [])))) @
             [Ev_state PA_CONTEXT_READY]
         \<and> read_cb w' = Some ''hdmi'')"
proof -
  let ?w = "start ''hdmi'' (snd (setup_context (boot [])))"
  have cb: "state_cb ?w = Some ''hdmi''" and g: "granted_next ?w"
    and g2: "granted_next (?w\<lparr>script := tl (script ?w)\<rparr>)"
    by (simp_all add: start_def granted_next_def boot_def lib_defs setup_context_def)
  have d: "dispatch (Ev_state PA_CONTEXT_READY) ?w = Inr (ready_world [])"
    by (simp add: start_def boot_def lib_defs prog_defs ready_world_def setup_trace_def)
  from ready_issues_both_requests [OF cb g] g2 cb g d show ?thesis by auto
qed

subsection \<open>C4: an empty enumeration\<close>

text \<open>
  Claim C4: if the service delivers zero stream-restore records (the end-of-list marker
  arrives first), the program issues zero write requests, invokes the drain controller
  directly from the end-of-list marker, and completes with exit code 0.

  Take any run of \<open>paswitch nm\<close> that is waiting in its loop after the events \<open>pre\<close>,
  with the connection Ready, the enumeration requested and no record delivered so far.
  Let the end-of-list marker come next, then any number of completions that report
  success (the set-default completion may come before or after the marker), then the
  drain completion. Whatever is scheduled after that, the program exits with status 0;
  its trace holds no write request; and from the marker on it consists of the drain
  request first, then the disconnect with the quit request for status 0 (at once when the
  drain operation is refused, on the drain completion otherwise), then the four final
  calls of \<open>main\<close>.
\<close>

theorem empty_enumeration_exits_zero:
  assumes "main [prog, nm] rs (map Deliver pre) = Inr (None, w)"
    and "ctx_state w = PA_CONTEXT_READY"
    and "read_cb w = Some userdata"
    and "records_delivered (delivered w) = []"
    and "eol \<noteq> 0"
    and "list_all ack acks"
  shows "\<exists>w'. main [prog, nm] rs
                (map Deliver (pre @ Ev_stream_restore info eol # acks @ [Ev_drain_complete])
                 @ rest) = Inr (Some 0, w')
            \<and> write_requests (trace w') = []
            \<and> trace w' = trace w @
                (if granted_next w
                 then [Pa_context_drain, Pa_operation_unref, Pa_context_disconnect, Quit 0,
                       Pa_context_disconnect, Pa_context_unref, Pa_signal_done,
                       Pa_mainloop_free]
                 else [Pa_context_drain, Pa_context_disconnect, Quit 0,
                       Pa_context_disconnect, Pa_context_unref, Pa_signal_done,
                       Pa_mainloop_free])"
proof -
  note ext = main_extend [OF assms(1)]
  from ext(3) have cb: "state_cb w = Some nm" and wr: "write_requests (trace w) = []"
    by (simp_all add: wr_inv_def assms(4))
  let ?sched = "Deliver (Ev_stream_restore info eol) # map Deliver acks @
                Deliver Ev_drain_complete # rest"
  have sched: "map Deliver (pre @ Ev_stream_restore info eol # acks @ [Ev_drain_complete]) @ rest
               = map Deliver pre @ ?sched" by simp
  let ?w0 = "log_event (Ev_stream_restore info eol) w"
  have d: "dispatch (Ev_stream_restore info eol) w = Inr (drain ?w0)"
    using assms(3,5) by (simp add: stream_restore_cb_def)
  show ?thesis
  proof (cases "granted_next w")
    case True
    let ?w1 = "w\<lparr>trace := trace w @ [Pa_context_drain, Pa_operation_unref],
                 script := tl (script w),
                 delivered := delivered w @ [Ev_stream_restore info eol]\<rparr>"
    from True have dr: "drain ?w0 = ?w1"
      by (auto simp: granted_next_def lib_defs drain_def Let_def
               split: list.splits reply.splits)
    let ?w2 = "?w1\<lparr>delivered := delivered ?w1 @ acks\<rparr>"
    let ?w3 = "?w2\<lparr>trace := trace ?w2 @ [Pa_context_disconnect, Quit 0],
                   ctx_state := PA_CONTEXT_TERMINATED, quit_req := Some 0,
                   delivered := delivered ?w2 @ [Ev_drain_complete]\<rparr>"
    have q1: "quit_req ?w1 = None" using ext(2) by simp
    have "run_loop ?sched w = run_loop (map Deliver acks @ Deliver Ev_drain_complete # rest) ?w1"
      using d dr ext(2) by simp
    also have "\<dots> = run_loop (Deliver Ev_drain_complete # rest) ?w2"
      using run_loop_acks [OF assms(6) q1] by simp
    also have "\<dots> = run_loop rest ?w3"
    proof -
      have "dispatch Ev_drain_complete ?w2 = Inr ?w3"
        using cb assms(2)
        by (auto simp: lib_defs context_drain_complete_def context_state_callback_def
                 intro!: world.equality)
      then show ?thesis using ext(2) by simp
    qed
    also have "\<dots> = Inr (Loop_quit 0, ?w3)" by (simp add: run_loop_quit_now)
    finally have "run_loop ?sched w = Inr (Loop_quit 0, ?w3)" .
    with True wr show ?thesis
      unfolding sched
      by (simp add: ext(1) cleanup_def lib_defs write_requests_append)
  next
    case False
    then obtain e rs' where sc: "script w = Refused e # rs'"
      by (auto simp: granted_next_def split: list.splits reply.splits)
    let ?w1 = "w\<lparr>trace := trace w @ [Pa_context_drain, Pa_context_disconnect, Quit 0],
                 script := rs', ctx_error := e,
                 ctx_state := PA_CONTEXT_TERMINATED, quit_req := Some 0,
                 delivered := delivered w @ [Ev_stream_restore info eol]\<rparr>"
    from sc cb assms(2) have dr: "drain ?w0 = ?w1"
      by (simp add: lib_defs drain_def context_state_callback_def)
    have "run_loop ?sched w = run_loop (map Deliver acks @ Deliver Ev_drain_complete # rest) ?w1"
      using d dr ext(2) by simp
    also have "\<dots> = Inr (Loop_quit 0, ?w1)" by (simp add: run_loop_quit_now)
    finally have "run_loop ?sched w = Inr (Loop_quit 0, ?w1)" .
    with False wr show ?thesis
      unfolding sched
      by (simp add: ext(1) cleanup_def lib_defs write_requests_append)
  qed
qed

text \<open>
  \<open>paswitch hdmi\<close> against a service without records: the marker, the set-default
  completion, the drain completion, and one more event that is never looked at.
\<close>

theorem empty_enumeration_exits_zero_witness:
  "main [''paswitch'', ''hdmi''] [Granted, Granted, Granted, Granted, Granted]
     (map Deliver [Ev_state PA_CONTEXT_READY]) = Inr (None, ready_world [])
   \<and> ctx_state (ready_world []) = PA_CONTEXT_READY
   \<and> read_cb (ready_world []) = Some ''hdmi''
   \<and> records_delivered (delivered (ready_world [])) = []
   \<and> (1 :: int) \<noteq> 0
   \<and> list_all ack [Ev_success 1]
   \<and> granted_next (ready_world [])
   \<and> (\<exists>w'. main [''paswitch'', ''hdmi''] [Granted, Granted, Granted, Granted, Granted]
              (map Deliver ([Ev_state PA_CONTEXT_READY] @
                 Ev_stream_restore None 1 # [Ev_success 1] @ [Ev_drain_complete])
               @ [Deliver (Ev_state PA_CONTEXT_FAILED)]) = Inr (Some 0, w')
          \<and> write_requests (trace w') = []
          \<and> trace w' = trace (ready_world []) @
              [Pa_context_drain, Pa_operation_unref, Pa_context_disconnect, Quit 0,
               Pa_context_disconnect, Pa_context_unref, Pa_signal_done, Pa_mainloop_free])"
proof -
  have h1: "main [''paswitch'', ''hdmi''] [Granted, Granted, Granted, Granted, Granted]
              (map Deliver [Ev_state PA_CONTEXT_READY]) = Inr (None, ready_world [])"
    by (rule ready_world_reached)
  have h2: "ctx_state (ready_world []) = PA_CONTEXT_READY"
    and h3: "read_cb (ready_world []) = Some ''hdmi''"
    and h4: "records_delivered (delivered (ready_world [])) = []"
    and h5: "(1 :: int) \<noteq> 0"
    and h6: "list_all ack [Ev_success 1]"
    and g: "granted_next (ready_world [])"
    by (simp_all add: ready_world_def granted_next_def)
  from empty_enumeration_exits_zero [OF h1 h2 h3 h4 h5 h6, of None
         "[Deliver (Ev_state PA_CONTEXT_FAILED)]"] h1 h2 h3 h4 h6 g
  show ?thesis by simp
qed

subsection \<open>C5: the drain controller\<close>

text \<open>
  Claim C5: the drain controller disconnects the connection on drain completion, and if
  the drain operation cannot be created it disconnects immediately instead of waiting; in
  either case disconnection drives the connection to the Terminated state, upon which the
  loop is asked to exit with status 0.

  For a connection in a good state (Connecting to Ready) with the state callback
  registered, as it is whenever \<open>main\<close> runs the loop: \<open>context_drain_complete\<close> calls
  disconnect, the connection becomes Terminated and \<open>quit(0)\<close> is called; \<open>drain\<close>
  with the drain operation refused does the same within the call; \<open>drain\<close> with the
  operation created only drops the handle and leaves the rest to the completion. That
  disconnect ends in the Terminated notification is the library's part, as modelled in
  \<open>pa_context_disconnect\<close>.
\<close>

theorem drain_disconnects_and_quits:
  assumes "PA_CONTEXT_IS_GOOD (ctx_state w)" and "state_cb w = Some userdata"
  shows "context_drain_complete w =
           w\<lparr>trace := trace w @ [Pa_context_disconnect, Quit 0],
             ctx_state := PA_CONTEXT_TERMINATED, quit_req := Some 0\<rparr>
       \<and> (script w = Refused e # rs \<longrightarrow>
            drain w = w\<lparr>trace := trace w @ [Pa_context_drain, Pa_context_disconnect, Quit 0],
                       script := rs, ctx_error := e,
                       ctx_state := PA_CONTEXT_TERMINATED, quit_req := Some 0\<rparr>)
       \<and> (granted_next w \<longrightarrow>
            drain w = w\<lparr>trace := trace w @ [Pa_context_drain, Pa_operation_unref],
                       script := tl (script w)\<rparr>)"
  using assms
  by (auto simp: granted_next_def lib_defs prog_defs Let_def split: list.splits reply.splits)

theorem drain_disconnects_and_quits_witness:
  "PA_CONTEXT_IS_GOOD (ctx_state (ready_world [Refused ''Bad state'']))
   \<and> state_cb (ready_world [Refused ''Bad state'']) = Some ''hdmi''
   \<and> script (ready_world [Refused ''Bad state'']) = Refused ''Bad state'' # []
   \<and> PA_CONTEXT_IS_GOOD (ctx_state (ready_world [])) \<and> state_cb (ready_world []) = Some ''hdmi''
   \<and> granted_next (ready_world [])
   \<and> context_drain_complete (ready_world []) =
       (ready_world [])\<lparr>trace := trace (ready_world []) @ [Pa_context_disconnect, Quit 0],
                        ctx_state := PA_CONTEXT_TERMINATED, quit_req := Some 0\<rparr>
   \<and> drain (ready_world [Refused ''Bad state'']) =
       (ready_world [])\<lparr>trace := trace (ready_world []) @
                            [Pa_context_drain, Pa_context_disconnect, Quit 0],
                        ctx_error := ''Bad state'',
                        ctx_state := PA_CONTEXT_TERMINATED, quit_req := Some 0\<rparr>
   \<and> drain (ready_world []) =
       (ready_world [])\<lparr>trace := trace (ready_world []) @
                            [Pa_context_drain, Pa_operation_unref]\<rparr>"
proof -
  have r: "PA_CONTEXT_IS_GOOD (ctx_state (ready_world [Refused ''Bad state'']))"
          "state_cb (ready_world [Refused ''Bad state'']) = Some ''hdmi''"
          "script (ready_world [Refused ''Bad state'']) = Refused ''Bad state'' # []"
    and g: "PA_CONTEXT_IS_GOOD (ctx_state (ready_world []))"
           "state_cb (ready_world []) = Some ''hdmi''"
           "granted_next (ready_world [])"
    by (simp_all add: ready_world_def PA_CONTEXT_IS_GOOD_def granted_next_def)
  from drain_disconnects_and_quits [OF r(1,2), of "''Bad state''" "[]"]
       drain_disconnects_and_quits [OF g(1,2), of "''x''" "[]"] r g
  show ?thesis by (simp add: ready_world_def)
qed

subsection \<open>C6: the Failed state\<close>

text \<open>
  Claim C6: on any connection state transition to the Failed state, the program prints the
  server-reported error string and terminates the event loop with non-zero (1) exit
  status, without hanging past the failure notification.

  Take any run of \<open>paswitch nm\<close> that is waiting in its loop after the events \<open>pre\<close>,
  whatever they were. If the next event is the Failed notification, the program prints
  the connection's error text, calls \<open>quit(1)\<close>, makes the four final calls of \<open>main\<close>
  and exits with status 1; nothing of what is scheduled after the notification is looked
  at.
\<close>

theorem failed_state_exits_one:
  assumes "main [prog, nm] rs (map Deliver pre) = Inr (None, w)"
  shows "main [prog, nm] rs (map Deliver pre @ Deliver (Ev_state PA_CONTEXT_FAILED) # rest) =
     Inr (Some 1,
          w\<lparr>trace := trace w @
               [Printf (''connection failure: '' @ ctx_error w @ nl), Quit 1,
                Pa_context_disconnect, Pa_context_unref, Pa_signal_done, Pa_mainloop_free],
            ctx_state := PA_CONTEXT_FAILED, quit_req := Some 1,
            delivered := delivered w @ [Ev_state PA_CONTEXT_FAILED],
            mainloop_live := False, context_live := False\<rparr>)"
proof -
  note ext = main_extend [OF assms]
  from ext(3) have cb: "state_cb w = Some nm" by (simp add: wr_inv_def)
  let ?w1 = "w\<lparr>trace := trace w @ [Printf (''connection failure: '' @ ctx_error w @ nl), Quit 1],
               ctx_state := PA_CONTEXT_FAILED, quit_req := Some 1,
               delivered := delivered w @ [Ev_state PA_CONTEXT_FAILED]\<rparr>"
  from cb have d: "dispatch (Ev_state PA_CONTEXT_FAILED) w = Inr ?w1"
    by (simp add: lib_defs context_state_callback_def)
  have "run_loop rest ?w1 = Inr (Loop_quit 1, ?w1)" by (simp add: run_loop_quit_now)
  with d ext(2)
  have "run_loop (Deliver (Ev_state PA_CONTEXT_FAILED) # rest) w = Inr (Loop_quit 1, ?w1)"
    by simp
  then show ?thesis
    by (simp add: ext(1) cleanup_def lib_defs)
qed

text \<open>
  The handshake fails: the service reports ``Access denied'' and the connection goes from
  Authorizing to Failed. The Ready notification scheduled after it is never delivered.
\<close>

theorem failed_state_exits_one_witness:
  "main [''paswitch'', ''hdmi''] []
     (map Deliver [Ev_state PA_CONTEXT_AUTHORIZING, Ev_error ''Access denied'']) =
   Inr (None,
     \<lparr>trace = setup_trace @ [Pa_context_set_state_callback ''hdmi'', Pa_mainloop_run],
      script = [], ctx_state = PA_CONTEXT_AUTHORIZING, ctx_error = ''Access denied'',
      state_cb = Some ''hdmi'', read_cb = None, quit_req = None,
      delivered = [Ev_state PA_CONTEXT_AUTHORIZING],
      mainloop_live = True, context_live = True\<rparr>)
   \<and>
   main [''paswitch'', ''hdmi''] []
     (map Deliver [Ev_state PA_CONTEXT_AUTHORIZING, Ev_error ''Access denied''] @
      Deliver (Ev_state PA_CONTEXT_FAILED) # [Deliver (Ev_state PA_CONTEXT_READY)]) =
   Inr (Some 1,
     \<lparr>trace = setup_trace @
        [Pa_context_set_state_callback ''hdmi'', Pa_mainloop_run,
         Printf (''connection failure: Access denied'' @ nl), Quit 1,
         Pa_context_disconnect, Pa_context_unref, Pa_signal_done, Pa_mainloop_free],
      script = [], ctx_state = PA_CONTEXT_FAILED, ctx_error = ''Access denied'',
      state_cb = Some ''hdmi'', read_cb = None, quit_req = Some 1,
      delivered = [Ev_state PA_CONTEXT_AUTHORIZING, Ev_state PA_CONTEXT_FAILED],
      mainloop_live = False, context_live = False\<rparr>)"
proof -
  have h: "main [''paswitch'', ''hdmi''] []
             (map Deliver [Ev_state PA_CONTEXT_AUTHORIZING, Ev_error ''Access denied'']) =
           Inr (None,
             \<lparr>trace = setup_trace @ [Pa_context_set_state_callback ''hdmi'', Pa_mainloop_run],
              script = [], ctx_state = PA_CONTEXT_AUTHORIZING, ctx_error = ''Access denied'',
              state_cb = Some ''hdmi'', read_cb = None, quit_req = None,
              delivered = [Ev_state PA_CONTEXT_AUTHORIZING],
              mainloop_live = True, context_live = True\<rparr>)"
    by (simp add: run_defs setup_trace_def)
  from failed_state_exits_one [OF h, of "[Deliver (Ev_state PA_CONTEXT_READY)]"] h
  show ?thesis by simp
qed

subsection \<open>C7: wrong argument count\<close>

text \<open>
  Claim C7: invoked with any argument count other than exactly one positional argument
  (zero, or two and more), the program prints the usage text with the version and author
  banner and exits with status 0, without any network interaction. Here \<open>prog\<close> is
  \<open>argv[0]\<close> and \<open>args\<close> are the positional arguments. The text printed is spelled
  out: the name of the program, the copyright line with the year and the author, an empty
  line, and the usage line with \<open>argv[0]\<close> in it. The final world is the initial one
  with that one \<open>printf\<close> as its whole trace, so no library call was made and the
  connection never left the Unconnected state.
\<close>

theorem wrong_argc_prints_usage:
  "length args \<noteq> 1 \<Longrightarrow>
   main (prog # args) rs sched =
     Inr (Some 0,
          \<lparr>trace =
             [Printf (''PulseAudio commandline sink switcher\<newline>'' @
                      ''Copyright (C) 2012 by Tomaz Solc <tomaz.solc@tablix.org>\<newline>\<newline>'' @
                      ''USAGE: '' @ prog @ '' [ sink ]\<newline>'')],
           script = rs, ctx_state = PA_CONTEXT_UNCONNECTED, ctx_error = [],
           state_cb = None, read_cb = None, quit_req = None, delivered = [],
           mainloop_live = False, context_live = False\<rparr>)"
  by (simp add: main_def printf_def emit_def boot_def usage_def nl_def)

text \<open>No positional argument, and two of them, with an event scheduled that is never used.\<close>

theorem wrong_argc_prints_usage_witness:
  "length ([] :: string list) \<noteq> 1 \<and> length [''a'', ''b''] \<noteq> 1 \<and>
   main [''paswitch''] [] [Deliver (Ev_state PA_CONTEXT_READY)] =
     Inr (Some 0,
          \<lparr>trace =
             [Printf ''PulseAudio commandline sink switcher\<newline>Copyright (C) 2012 by Tomaz Solc <tomaz.solc@tablix.org>\<newline>\<newline>USAGE: paswitch [ sink ]\<newline>''],
           script = [], ctx_state = PA_CONTEXT_UNCONNECTED, ctx_error = [],
           state_cb = None, read_cb = None, quit_req = None, delivered = [],
           mainloop_live = False, context_live = False\<rparr>) \<and>
   main [''paswitch'', ''a'', ''b''] [Refused ''x''] [Deliver (Ev_state PA_CONTEXT_READY)] =
     Inr (Some 0,
          \<lparr>trace =
             [Printf ''PulseAudio commandline sink switcher\<newline>Copyright (C) 2012 by Tomaz Solc <tomaz.solc@tablix.org>\<newline>\<newline>USAGE: paswitch [ sink ]\<newline>''],
           script = [Refused ''x''], ctx_state = PA_CONTEXT_UNCONNECTED, ctx_error = [],
           state_cb = None, read_cb = None, quit_req = None, delivered = [],
           mainloop_live = False, context_live = False\<rparr>)"
proof -
  have a: "length ([] :: string list) \<noteq> 1" and b: "length [''a'', ''b''] \<noteq> 1"
    by simp_all
  from wrong_argc_prints_usage [OF a, of "''paswitch''" "[]"
         "[Deliver (Ev_state PA_CONTEXT_READY)]"]
       wrong_argc_prints_usage [OF b, of "''paswitch''" "[Refused ''x'']"
         "[Deliver (Ev_state PA_CONTEXT_READY)]"] a b
  show ?thesis by simp
qed

subsection \<open>C8: releasing the connection and the main loop\<close>

text \<open>
  Claim C8: on every exit path of the program, the connection object and the main-loop
  object are each released exactly once, in connect, run, disconnect, free order,
  regardless of which exit code is produced.

  As stated the claim fails on the exit paths that leave before the loop has returned
  through \<open>quit\<close>. In the run below the main loop and the connection are created, the
  connect call is refused, and \<open>main\<close> returns 1 with both objects alive and neither
  \<open>pa_context_unref\<close> nor \<open>pa_mainloop_free\<close> in its trace.
\<close>

theorem failed_connect_releases_nothing:
  "main [''paswitch'', ''hdmi''] [Granted, Granted, Refused ''Connection refused'']
     [Deliver (Ev_state PA_CONTEXT_READY)]
   = Inr (Some 1,
      \<lparr>trace = setup_trace @
         [Printf (''pa_context_connect() failed: Connection refused'' @ nl),
          Printf (''can't get pulseaudio context.'' @ nl)],
       script = [], ctx_state = PA_CONTEXT_FAILED, ctx_error = ''Connection refused'',
       state_cb = None, read_cb = None, quit_req = None, delivered = [],
       mainloop_live = True, context_live = True\<rparr>)
   \<and> \<not> released_in_order
      \<lparr>trace = setup_trace @
         [Printf (''pa_context_connect() failed: Connection refused'' @ nl),
          Printf (''can't get pulseaudio context.'' @ nl)],
       script = [], ctx_state = PA_CONTEXT_FAILED, ctx_error = ''Connection refused'',
       state_cb = None, read_cb = None, quit_req = None, delivered = [],
       mainloop_live = True, context_live = True\<rparr>
   \<and> count_list
        (setup_trace @
         [Printf (''pa_context_connect() failed: Connection refused'' @ nl),
          Printf (''can't get pulseaudio context.'' @ nl)]) Pa_context_unref = 0
   \<and> count_list
        (setup_trace @
         [Printf (''pa_context_connect() failed: Connection refused'' @ nl),
          Printf (''can't get pulseaudio context.'' @ nl)]) Pa_mainloop_free = 0"
  by (simp add: run_defs setup_trace_def released_in_order_def)

text \<open>
  Claim C8 as amended: when the loop has returned because \<open>quit\<close> was called, whatever
  the exit status, \<open>main\<close> disconnects, releases the connection exactly once and then
  frees the main loop exactly once, with connect, run, disconnect, unref and free in this
  order, and neither object is alive afterwards; on every other exit path (usage message,
  failed \<open>setup_context\<close>, failed \<open>pa_mainloop_run\<close>) \<open>main\<close> returns without
  releasing either object. The two cases are told apart by \<open>quit_req\<close>: \<open>quit\<close> is the
  only way out of the loop that reaches the release calls.
\<close>

theorem release_after_quit_only:
  assumes "main argv rs sched = Inr (Some code, w')"
  shows "if quit_req w' = None
         then Pa_context_unref \<notin> set (trace w') \<and> Pa_mainloop_free \<notin> set (trace w')
         else released_in_order w'"
proof (cases "length argv = 2")
  case False
  with assms show ?thesis
    by (auto simp: main_def boot_def printf_def emit_def split: list.splits)
next
  case True
  then obtain prog nm where argv: "argv = [prog, nm]"
    by (cases argv; cases "tl argv") auto
  obtain r w1 where s: "setup_context (boot rs) = (r, w1)" by force
  show ?thesis
  proof (cases "r = 0")
    case False
    with assms s argv setup_context_failed [OF s] show ?thesis
      by (auto simp: main_two printf_def emit_def)
  next
    case True
    from assms argv s True obtain lr w3 where
      run: "run_loop sched (start nm w1) = Inr (lr, w3)"
      and fin: "(lr = Loop_error \<and> w' = printf (''pa_mainloop_run() failed.'' @ nl) w3) \<or>
           (\<exists>ret. lr = Loop_quit ret \<and> w' = cleanup w3)"
      by (auto simp: main_two split: sum.splits loop_result.splits)
    from setup_context_ok [OF s True] have st:
      "trace (start nm w1) = setup_trace @ [Pa_context_set_state_callback nm, Pa_mainloop_run]"
      by (simp add: start_def lib_defs)
    from run_loop_frame [OF run] obtain as where
      as: "trace w3 = trace (start nm w1) @ as" "list_all loop_action as" by blast
    note nr = loop_actions_no_release [OF as(2)]
    from fin show ?thesis
    proof
      assume e: "lr = Loop_error \<and> w' = printf (''pa_mainloop_run() failed.'' @ nl) w3"
      with run have "quit_req w3 = None" by (simp add: run_loop_error)
      with e as st nr show ?thesis
        by (simp add: printf_def emit_def setup_trace_def)
    next
      assume "\<exists>ret. lr = Loop_quit ret \<and> w' = cleanup w3"
      then obtain ret where q: "lr = Loop_quit ret" "w' = cleanup w3" by blast
      with run have qr: "quit_req w3 \<noteq> None" by (simp add: run_loop_quit)
      from cleanup_frame [of w3] obtain q where
        c: "trace (cleanup w3) =
              trace w3 @ [Pa_context_disconnect] @ q @
              [Pa_context_unref, Pa_signal_done, Pa_mainloop_free]"
           "q = [] \<or> q = [Quit 0]" "\<not> mainloop_live (cleanup w3)"
           "\<not> context_live (cleanup w3)"
           "quit_req w3 \<noteq> None \<longrightarrow> quit_req (cleanup w3) \<noteq> None" by blast
      have tr: "trace w' =
                  setup_trace @ [Pa_context_set_state_callback nm, Pa_mainloop_run] @ as @
                  [Pa_context_disconnect] @ q @
                  [Pa_context_unref, Pa_signal_done, Pa_mainloop_free]"
        using q c(1) as(1) st by simp
      have "count_list (trace w') Pa_context_unref = 1"
           "count_list (trace w') Pa_mainloop_free = 1"
        using nr c(2) unfolding tr by (auto simp: setup_trace_def)
      moreover have "subseq [Pa_context_connect, Pa_mainloop_run, Pa_context_disconnect,
                       Pa_context_unref, Pa_mainloop_free] (trace w')"
        unfolding tr by (rule subseq_exit_path)
      ultimately show ?thesis
        using q c qr by (simp add: released_in_order_def)
    qed
  qed
qed

text \<open>
  Both cases: a set-default request that the service rejects, so that the loop returns
  with status 1 and everything is released; and a main loop that fails, so that nothing
  is.
\<close>

theorem release_after_quit_only_witness:
  "main [''paswitch'', ''hdmi''] []
     [Deliver (Ev_state PA_CONTEXT_READY), Deliver (Ev_error ''No such entity''),
      Deliver (Ev_success 0)]
   = Inr (Some 1,
      (ready_world [])
        \<lparr>trace := trace (ready_world []) @
           [Printf (''No such entity'' @ nl), Quit 1, Pa_context_disconnect, Quit 0,
            Pa_context_unref, Pa_signal_done, Pa_mainloop_free],
         ctx_state := PA_CONTEXT_TERMINATED, ctx_error := ''No such entity'',
         quit_req := Some 0,
         delivered := [Ev_state PA_CONTEXT_READY, Ev_success 0],
         mainloop_live := False, context_live := False\<rparr>)
   \<and> released_in_order
      ((ready_world [])
        \<lparr>trace := trace (ready_world []) @
           [Printf (''No such entity'' @ nl), Quit 1, Pa_context_disconnect, Quit 0,
            Pa_context_unref, Pa_signal_done, Pa_mainloop_free],
         ctx_state := PA_CONTEXT_TERMINATED, ctx_error := ''No such entity'',
         quit_req := Some 0,
         delivered := [Ev_state PA_CONTEXT_READY, Ev_success 0],
         mainloop_live := False, context_live := False\<rparr>)
   \<and> main [''paswitch'', ''hdmi''] [] [Deliver (Ev_state PA_CONTEXT_READY), Poll_error]
     = Inr (Some 1,
        (ready_world [])
          \<lparr>trace := trace (ready_world []) @ [Printf (''pa_mainloop_run() failed.'' @ nl)]\<rparr>)
   \<and> Pa_context_unref \<notin> set (trace (ready_world []) @
                                 [Printf (''pa_mainloop_run() failed.'' @ nl)])
   \<and> Pa_mainloop_free \<notin> set (trace (ready_world []) @
                                 [Printf (''pa_mainloop_run() failed.'' @ nl)])"
proof -
  have a: "main [''paswitch'', ''hdmi''] []
     [Deliver (Ev_state PA_CONTEXT_READY), Deliver (Ev_error ''No such entity''),
      Deliver (Ev_success 0)]
   = Inr (Some 1,
      (ready_world [])
        \<lparr>trace := trace (ready_world []) @
           [Printf (''No such entity'' @ nl), Quit 1, Pa_context_disconnect, Quit 0,
            Pa_context_unref, Pa_signal_done, Pa_mainloop_free],
         ctx_state := PA_CONTEXT_TERMINATED, ctx_error := ''No such entity'',
         quit_req := Some 0,
         delivered := [Ev_state PA_CONTEXT_READY, Ev_success 0],
         mainloop_live := False, context_live := False\<rparr>)"
    by (simp add: run_defs ready_world_def setup_trace_def)
  have b: "main [''paswitch'', ''hdmi''] [] [Deliver (Ev_state PA_CONTEXT_READY), Poll_error]
     = Inr (Some 1,
        (ready_world [])
          \<lparr>trace := trace (ready_world []) @ [Printf (''pa_mainloop_run() failed.'' @ nl)]\<rparr>)"
    by (simp add: run_defs ready_world_def setup_trace_def)
  from release_after_quit_only [OF a] release_after_quit_only [OF b] a b
  show ?thesis by (simp add: ready_world_def)
qed

subsection \<open>C9: mode and flag of the write requests\<close>

text \<open>
  Claim C9: every stream-restore write request is issued in replace-existing-entry mode
  with the apply-immediately flag set, so that the rewritten preference is applied to
  matching live streams at write time, not only stored for future streams.

  For every run of \<open>main\<close> that does not fault, every write request in its trace has mode
  \<open>PA_UPDATE_REPLACE\<close> and \<open>apply_immediately = 1\<close>. What the service does with the
  flag is the service's.
\<close>

theorem writes_replace_and_apply:
  assumes "main argv rs sched = Inr (out, w')"
  shows "\<forall>(mode, data, apply_immediately) \<in> set (write_requests (trace w')).
           mode = PA_UPDATE_REPLACE \<and> apply_immediately = 1"
  using main_writes [OF assms] by auto

theorem writes_replace_and_apply_witness:
  "main [''paswitch'', ''hdmi''] [] three_records = Inr (Some 0, three_records_done)
   \<and> write_requests (trace three_records_done) =
       [(PA_UPDATE_REPLACE,
         [\<lparr>name = ''mpv'', channel_map = [1, 2], volume = [65536, 65536], mute = 0,
           device = Some ''hdmi''\<rparr>], 1),
        (PA_UPDATE_REPLACE,
         [\<lparr>name = ''vlc'', channel_map = [0], volume = [30000], mute = 1,
           device = Some ''hdmi''\<rparr>], 1),
        (PA_UPDATE_REPLACE,
         [\<lparr>name = ''mpv'', channel_map = [1, 2], volume = [65536, 65536], mute = 0,
           device = Some ''hdmi''\<rparr>], 1)]
   \<and> list_all (\<lambda>(mode, data, apply_immediately).
                  mode = PA_UPDATE_REPLACE \<and> apply_immediately = 1)
        (write_requests (trace three_records_done))"
proof -
  have run: "main [''paswitch'', ''hdmi''] [] three_records = Inr (Some 0, three_records_done)"
    by (simp add: run_defs setup_trace_def three_records_def three_records_done_def)
  have wr: "write_requests (trace three_records_done) =
       [(PA_UPDATE_REPLACE,
         [\<lparr>name = ''mpv'', channel_map = [1, 2], volume = [65536, 65536], mute = 0,
           device = Some ''hdmi''\<rparr>], 1),
        (PA_UPDATE_REPLACE,
         [\<lparr>name = ''vlc'', channel_map = [0], volume = [30000], mute = 1,
           device = Some ''hdmi''\<rparr>], 1),
        (PA_UPDATE_REPLACE,
         [\<lparr>name = ''mpv'', channel_map = [1, 2], volume = [65536, 65536], mute = 0,
           device = Some ''hdmi''\<rparr>], 1)]"
    by (simp add: three_records_done_def setup_trace_def)
  have "\<forall>(mode, data, apply_immediately) \<in> set (write_requests (trace three_records_done)).
          mode = PA_UPDATE_REPLACE \<and> apply_immediately = 1"
    by (rule writes_replace_and_apply [OF run])
  then have la: "list_all (\<lambda>(mode, data, apply_immediately).
                             mode = PA_UPDATE_REPLACE \<and> apply_immediately = 1)
                   (write_requests (trace three_records_done))"
    by (simp only: list_all_iff)
  show ?thesis by (rule conjI [OF run conjI [OF wr la]])
qed

subsection \<open>C10: the end-of-list marker\<close>

text \<open>
  Claim C10: when the enumeration callback is invoked with the end-of-list marker set, it
  returns after invoking drain without accessing any field of the delivered record, so
  the record pointer, which may be null at end-of-list, is never dereferenced. The result
  is that of \<open>drain\<close> whatever \<open>info\<close> is, \<open>None\<close> included, and it is not a fault.
\<close>

theorem eol_ignores_record:
  "eol \<noteq> 0 \<Longrightarrow> stream_restore_cb info eol userdata w = Inr (drain w)"
  by (simp add: stream_restore_cb_def)

text \<open>With the marker clear, the same null pointer is dereferenced.\<close>

theorem eol_ignores_record_witness:
  "(1 :: int) \<noteq> 0 \<and> stream_restore_cb None 1 ''hdmi'' (boot []) = Inr (drain (boot []))
   \<and> stream_restore_cb None 0 ''hdmi'' (boot []) = Inl Null_dereference"
  using eol_ignores_record [of 1 None "''hdmi''" "boot []"]
  by (simp add: stream_restore_cb_def)

end
